theory Spec2Isabelle
  imports Complex_Main
begin

section \<open>Values\<close>

text \<open>
  The plotting helpers of \<^verbatim>\<open>plot_helpers.py\<close> take Python sequences of numbers.
  A Python number is an \<^verbatim>\<open>int\<close> or a \<^verbatim>\<open>float\<close>. Floats are idealised: a finite
  float is a real number, arithmetic on finite floats is exact, and rounding and overflow
  are outside the model.
\<close>

datatype pynum = PyInt int | PyFloat real

text \<open>The numeric value of a number; Python compares an int and a float by value.\<close>

fun num_val :: "pynum \<Rightarrow> real" where
  "num_val (PyInt i) = of_int i"
| "num_val (PyFloat r) = r"

text \<open>\<^verbatim>\<open>float(x)\<close> on a number.\<close>

definition py_float :: "pynum \<Rightarrow> real" where
  "py_float x = num_val x"

text \<open>\<^verbatim>\<open>a - b\<close> and \<^verbatim>\<open>a + b\<close>: an int when both are ints, a float otherwise.\<close>

fun num_sub :: "pynum \<Rightarrow> pynum \<Rightarrow> pynum" where
  "num_sub (PyInt a) (PyInt b) = PyInt (a - b)"
| "num_sub a b = PyFloat (num_val a - num_val b)"

fun num_add :: "pynum \<Rightarrow> pynum \<Rightarrow> pynum" where
  "num_add (PyInt a) (PyInt b) = PyInt (a + b)"
| "num_add a b = PyFloat (num_val a + num_val b)"

text \<open>
  The exceptions the helpers can raise: an index past the end of a sequence, \<^verbatim>\<open>min\<close>
  or \<^verbatim>\<open>max\<close> of an empty sequence, and an attribute read on \<^verbatim>\<open>None\<close>. A raise is the
  value \<open>Inl e\<close>; the effects that preceded it are not tracked.
\<close>

datatype error = IndexError | ValueError | AttributeError

text \<open>\<^verbatim>\<open>xs[i]\<close> for a constant index \<open>i \<ge> 0\<close>.\<close>

definition py_getitem :: "'a list \<Rightarrow> nat \<Rightarrow> error + 'a" where
  "py_getitem xs i = (if i < length xs then Inr (xs ! i) else Inl IndexError)"

text \<open>
  \<^verbatim>\<open>xs[i]\<close> for a computed index: one from \<open>-len(xs)\<close> up to \<open>-1\<close> counts from the
  end of the sequence, and one outside \<open>-len(xs) .. len(xs) - 1\<close> raises.
\<close>

definition py_index :: "'a list \<Rightarrow> int \<Rightarrow> error + 'a" where
  "py_index xs i =
     (if 0 \<le> i \<and> i < int (length xs) then Inr (xs ! nat i)
      else if - int (length xs) \<le> i \<and> i < 0 then Inr (xs ! nat (int (length xs) + i))
      else Inl IndexError)"

text \<open>
  \<^verbatim>\<open>min(xs)\<close> and \<^verbatim>\<open>max(xs)\<close>: Python keeps the first element and replaces it by
  a later one only when that one is strictly smaller (strictly larger).
\<close>

fun py_min :: "pynum list \<Rightarrow> error + pynum" where
  "py_min [] = Inl ValueError"
| "py_min (x # xs) = Inr (fold (\<lambda>y m. if num_val y < num_val m then y else m) xs x)"

fun py_max :: "pynum list \<Rightarrow> error + pynum" where
  "py_max [] = Inl ValueError"
| "py_max (x # xs) = Inr (fold (\<lambda>y m. if num_val m < num_val y then y else m) xs x)"

section \<open>The array library\<close>

text \<open>
  An element of a numpy float array is a finite value, an infinity or NaN. Under numpy's
  default error state a division by zero raises nothing: it gives an infinity or NaN
  (and a warning on the console, which the model leaves out). The sign of a zero is not
  tracked.
\<close>

datatype npfloat = Fin real | PInf | NInf | NaN

fun np_neg :: "npfloat \<Rightarrow> npfloat" where
  "np_neg (Fin a) = Fin (- a)"
| "np_neg PInf = NInf"
| "np_neg NInf = PInf"
| "np_neg NaN = NaN"

fun np_add :: "npfloat \<Rightarrow> npfloat \<Rightarrow> npfloat" where
  "np_add (Fin a) (Fin b) = Fin (a + b)"
| "np_add NaN _ = NaN"
| "np_add _ NaN = NaN"
| "np_add PInf NInf = NaN"
| "np_add NInf PInf = NaN"
| "np_add PInf _ = PInf"
| "np_add _ PInf = PInf"
| "np_add NInf _ = NInf"
| "np_add _ NInf = NInf"

definition np_sub :: "npfloat \<Rightarrow> npfloat \<Rightarrow> npfloat" where
  "np_sub a b = np_add a (np_neg b)"

text \<open>The infinity with the sign of \<open>a\<close> when \<open>a \<noteq> 0\<close>, NaN for zero.\<close>

definition signed_inf :: "real \<Rightarrow> npfloat" where
  "signed_inf a = (if a = 0 then NaN else if 0 < a then PInf else NInf)"

fun np_mul :: "npfloat \<Rightarrow> npfloat \<Rightarrow> npfloat" where
  "np_mul (Fin a) (Fin b) = Fin (a * b)"
| "np_mul NaN _ = NaN"
| "np_mul _ NaN = NaN"
| "np_mul (Fin a) PInf = signed_inf a"
| "np_mul (Fin a) NInf = signed_inf (- a)"
| "np_mul PInf (Fin b) = signed_inf b"
| "np_mul NInf (Fin b) = signed_inf (- b)"
| "np_mul PInf PInf = PInf"
| "np_mul NInf NInf = PInf"
| "np_mul PInf NInf = NInf"
| "np_mul NInf PInf = NInf"

fun np_div :: "npfloat \<Rightarrow> npfloat \<Rightarrow> npfloat" where
  "np_div (Fin a) (Fin b) = (if b = 0 then signed_inf a else Fin (a / b))"
| "np_div NaN _ = NaN"
| "np_div _ NaN = NaN"
| "np_div (Fin a) _ = Fin 0"
| "np_div PInf (Fin b) = (if 0 \<le> b then PInf else NInf)"
| "np_div NInf (Fin b) = (if 0 \<le> b then NInf else PInf)"
| "np_div _ _ = NaN"

text \<open>
  \<^verbatim>\<open>np.linspace(start, stop, num)\<close>: \<open>num\<close> evenly spaced samples from \<open>start\<close> to
  \<open>stop\<close>, both included.
\<close>

definition linspace :: "real \<Rightarrow> real \<Rightarrow> nat \<Rightarrow> npfloat list" where
  "linspace start stop n =
     map (\<lambda>i. Fin (start + real i * ((stop - start) / real (n - 1)))) [0..<n]"

text \<open>
  \<^verbatim>\<open>np.meshgrid(x, y)\<close>: two matrices with one row per element of \<open>y\<close> and one column
  per element of \<open>x\<close>; the first repeats \<open>x\<close> in every row, the second repeats
  \<open>y\<close> in every column.
\<close>

definition meshgrid :: "npfloat list \<Rightarrow> npfloat list \<Rightarrow> npfloat list list \<times> npfloat list list" where
  "meshgrid x y = (map (\<lambda>yi. x) y, map (\<lambda>yi. map (\<lambda>xj. yi) x) y)"

section \<open>The canvas\<close>

text \<open>
  The keyword arguments \<^verbatim>\<open>plot_vec\<close> gives to an arrow.
\<close>

record arrow_kwargs =
  mutation_scale :: int
  lw :: int
  arrowstyle :: string
  color :: string

text \<open>
  The artifacts a canvas holds. An arrow keeps its coordinate sequences as given to its
  constructor, one per axis, each the pair (start, end): \<^verbatim>\<open>Arrow3D\<close> in
  \<^verbatim>\<open>_verts3d\<close>, \<^verbatim>\<open>Arrow2D\<close> in \<^verbatim>\<open>_verts2d\<close>. A polyline and a surface are what
  \<^verbatim>\<open>ax.plot\<close> and \<^verbatim>\<open>ax.plot_surface\<close> add, with the colour they were given
  (\<open>None\<close>: the library's default) and, for a surface, its alpha.
\<close>

datatype artist =
    Arrow3D "pynum \<times> pynum" "pynum \<times> pynum" "pynum \<times> pynum" arrow_kwargs
  | Arrow2D "pynum \<times> pynum" "pynum \<times> pynum" arrow_kwargs
  | Line2D "npfloat list" "npfloat list" "string option"
  | Line3D "npfloat list" "npfloat list" "npfloat list" "string option"
  | Surface "npfloat list list" "npfloat list list" "npfloat list list" "string option" real

text \<open>
  An axes of the plotting library, as far as the helpers use it: its children in the
  order they were added, its aspect, and the limits of its x, y and z axis. The library
  itself (projections, rendering, its checks of limits) is not modelled.
\<close>

record axes =
  children :: "artist list"
  aspect :: string
  xlim :: "pynum \<times> pynum"
  ylim :: "pynum \<times> pynum"
  zlim :: "pynum \<times> pynum"

text \<open>
  The process: the axes objects by reference, the reference of the current axes
  (what \<^verbatim>\<open>plt.gca\<close> returns, with or without a projection), the lines printed so far,
  and the class attribute \<^verbatim>\<open>PlaneColorPicker.instance\<close>: \<open>None\<close>, or the one inner
  object, which holds nothing but its \<^verbatim>\<open>color_index\<close>.
\<close>

record world =
  axs :: "nat \<Rightarrow> axes"
  cur :: nat
  out :: "string list"
  picker :: "int option"

definition gca :: "world \<Rightarrow> nat" where
  "gca w = cur w"

definition get_children :: "nat \<Rightarrow> world \<Rightarrow> artist list" where
  "get_children ax w = children (axs w ax)"

definition set_aspect :: "nat \<Rightarrow> string \<Rightarrow> world \<Rightarrow> world" where
  "set_aspect ax a w = w\<lparr>axs := (axs w)(ax := (axs w ax)\<lparr>aspect := a\<rparr>)\<rparr>"

text \<open>\<^verbatim>\<open>ax.add_artist\<close>, \<^verbatim>\<open>ax.plot\<close> and \<^verbatim>\<open>ax.plot_surface\<close> append a child.\<close>

definition add_artist :: "nat \<Rightarrow> artist \<Rightarrow> world \<Rightarrow> world" where
  "add_artist ax a w = w\<lparr>axs := (axs w)(ax := (axs w ax)\<lparr>children := children (axs w ax) @ [a]\<rparr>)\<rparr>"

definition set_xlim :: "nat \<Rightarrow> pynum \<Rightarrow> pynum \<Rightarrow> world \<Rightarrow> world" where
  "set_xlim ax l r w = w\<lparr>axs := (axs w)(ax := (axs w ax)\<lparr>xlim := (l, r)\<rparr>)\<rparr>"

definition set_ylim :: "nat \<Rightarrow> pynum \<Rightarrow> pynum \<Rightarrow> world \<Rightarrow> world" where
  "set_ylim ax l r w = w\<lparr>axs := (axs w)(ax := (axs w ax)\<lparr>ylim := (l, r)\<rparr>)\<rparr>"

definition set_zlim :: "nat \<Rightarrow> pynum \<Rightarrow> pynum \<Rightarrow> world \<Rightarrow> world" where
  "set_zlim ax l r w = w\<lparr>axs := (axs w)(ax := (axs w ax)\<lparr>zlim := (l, r)\<rparr>)\<rparr>"

definition py_print :: "string \<Rightarrow> world \<Rightarrow> world" where
  "py_print s w = w\<lparr>out := out w @ [s]\<rparr>"

text \<open>A fresh process: one empty axes, nothing printed, no colour picker yet.\<close>

definition empty_axes :: axes where
  "empty_axes = \<lparr>children = [], aspect = ''auto'',
     xlim = (PyFloat 0, PyFloat 1), ylim = (PyFloat 0, PyFloat 1), zlim = (PyFloat 0, PyFloat 1)\<rparr>"

definition world0 :: world where
  "world0 = \<lparr>axs = (\<lambda>r. empty_axes), cur = 0, out = [], picker = None\<rparr>"

section \<open>Vectors\<close>

definition vec_kwargs :: "string \<Rightarrow> arrow_kwargs" where
  "vec_kwargs c = \<lparr>mutation_scale = 20, lw = 1, arrowstyle = ''-|>'', color = c\<rparr>"

text \<open>
  \<^verbatim>\<open>plot_vec(vec, at, color)\<close>. The components of \<open>vec\<close> pass through
  \<^verbatim>\<open>float\<close>; those of \<open>at\<close> are read as they are, and reading one that \<open>at\<close> does
  not have raises.
\<close>

definition plot_vec :: "pynum list \<Rightarrow> pynum list \<Rightarrow> string \<Rightarrow> world \<Rightarrow> error + world" where
  "plot_vec vec at_pt c w =
     (if length vec = 3 then
        (let ax = gca w;
             w1 = set_aspect ax ''equal'' w;
             vec_x = PyFloat (py_float (vec ! 0));
             vec_y = PyFloat (py_float (vec ! 1));
             vec_z = PyFloat (py_float (vec ! 2))
         in case py_getitem at_pt 0 of Inl e \<Rightarrow> Inl e | Inr at0 \<Rightarrow>
           (case py_getitem at_pt 1 of Inl e \<Rightarrow> Inl e | Inr at1 \<Rightarrow>
           (case py_getitem at_pt 2 of Inl e \<Rightarrow> Inl e | Inr at2 \<Rightarrow>
              Inr (add_artist ax
                    (Arrow3D (at0, vec_x) (at1, vec_y) (at2, vec_z) (vec_kwargs c)) w1))))
      else if length vec = 2 then
        (let ax = gca w;
             w1 = set_aspect ax ''equal'' w;
             vec_x = PyFloat (py_float (vec ! 0));
             vec_y = PyFloat (py_float (vec ! 1))
         in case py_getitem at_pt 0 of Inl e \<Rightarrow> Inl e | Inr at0 \<Rightarrow>
           (case py_getitem at_pt 1 of Inl e \<Rightarrow> Inl e | Inr at1 \<Rightarrow>
              Inr (add_artist ax (Arrow2D (at0, vec_x) (at1, vec_y) (vec_kwargs c)) w1)))
      else Inr (py_print ''Error: plot_vec supports only 2D and 3D vectors.'' w))"

text \<open>
  \<^verbatim>\<open>plot_vecs(*args)\<close>: the loop over \<^verbatim>\<open>enumerate(args)\<close>, with the index \<open>i\<close>
  and the default origin \<^verbatim>\<open>[0,0,0]\<close> of \<^verbatim>\<open>plot_vec\<close>. An exception of a call
  ends the loop.
\<close>

definition plot_vecs_COLORS :: "string list" where
  "plot_vecs_COLORS = [''k'', ''b'', ''g'', ''r'', ''c'', ''m'']"

definition default_at :: "pynum list" where
  "default_at = [PyInt 0, PyInt 0, PyInt 0]"

fun plot_vecs_loop :: "nat \<Rightarrow> pynum list list \<Rightarrow> world \<Rightarrow> error + world" where
  "plot_vecs_loop i [] w = Inr w"
| "plot_vecs_loop i (vec # rest) w =
     (case plot_vec vec default_at (plot_vecs_COLORS ! (i mod length plot_vecs_COLORS)) w of
        Inl e \<Rightarrow> Inl e
      | Inr w1 \<Rightarrow> plot_vecs_loop (Suc i) rest w1)"

definition plot_vecs :: "pynum list list \<Rightarrow> world \<Rightarrow> error + world" where
  "plot_vecs args w = plot_vecs_loop 0 args w"

section \<open>Lines\<close>

text \<open>
  \<^verbatim>\<open>plot_line(dir_vec, point, color)\<close>: two \<^verbatim>\<open>if\<close> statements, one per length.
  The sample arrays are numpy arrays, so the division by \<^verbatim>\<open>dir_vec_x\<close> is numpy's.
\<close>

definition plot_line_3d :: "pynum list \<Rightarrow> pynum list \<Rightarrow> string option \<Rightarrow> world \<Rightarrow> error + world" where
  "plot_line_3d dir_vec point c w =
     (let ax = gca w;
          w1 = set_aspect ax ''equal'' w;
          dir_vec_x = py_float (dir_vec ! 0);
          dir_vec_y = py_float (dir_vec ! 1);
          dir_vec_z = py_float (dir_vec ! 2)
      in case py_getitem point 0 of Inl e \<Rightarrow> Inl e | Inr p0 \<Rightarrow>
        (case py_getitem point 1 of Inl e \<Rightarrow> Inl e | Inr p1 \<Rightarrow>
        (case py_getitem point 2 of Inl e \<Rightarrow> Inl e | Inr p2 \<Rightarrow>
          (let point_x = py_float p0;
               point_y = py_float p1;
               point_z = py_float p2;
               s = map (\<lambda>t. np_div (np_sub t (Fin point_x)) (Fin dir_vec_x)) (linspace (-5) 5 100);
               x = map (\<lambda>si. np_add (Fin point_x) (np_mul (Fin dir_vec_x) si)) s;
               y = map (\<lambda>si. np_add (Fin point_y) (np_mul (Fin dir_vec_y) si)) s;
               z = map (\<lambda>si. np_add (Fin point_z) (np_mul (Fin dir_vec_z) si)) s
           in Inr (add_artist ax (Line3D x y z c) w1)))))"

definition plot_line_2d :: "pynum list \<Rightarrow> pynum list \<Rightarrow> string option \<Rightarrow> world \<Rightarrow> error + world" where
  "plot_line_2d dir_vec point c w =
     (let ax = gca w;
          w1 = set_aspect ax ''equal'' w;
          dir_vec_x = py_float (dir_vec ! 0);
          dir_vec_y = py_float (dir_vec ! 1)
      in case py_getitem point 0 of Inl e \<Rightarrow> Inl e | Inr p0 \<Rightarrow>
        (case py_getitem point 1 of Inl e \<Rightarrow> Inl e | Inr p1 \<Rightarrow>
          (let point_x = py_float p0;
               point_y = py_float p1;
               s = map (\<lambda>t. np_div (np_sub t (Fin point_x)) (Fin dir_vec_x)) (linspace (-5) 5 100);
               x = map (\<lambda>si. np_add (Fin point_x) (np_mul (Fin dir_vec_x) si)) s;
               y = map (\<lambda>si. np_add (Fin point_y) (np_mul (Fin dir_vec_y) si)) s
           in Inr (add_artist ax (Line2D x y c) w1))))"

definition plot_line :: "pynum list \<Rightarrow> pynum list \<Rightarrow> string option \<Rightarrow> world \<Rightarrow> error + world" where
  "plot_line dir_vec point c w =
     (case (if length dir_vec = 3 then plot_line_3d dir_vec point c w else Inr w) of
        Inl e \<Rightarrow> Inl e
      | Inr w1 \<Rightarrow> if length dir_vec = 2 then plot_line_2d dir_vec point c w1 else Inr w1)"

section \<open>The plane colour picker\<close>

definition PlaneColorPicker_COLORS :: "string list" where
  "PlaneColorPicker_COLORS = [''b'', ''g'', ''r'', ''c'', ''m'', ''k'']"

text \<open>
  \<^verbatim>\<open>PlaneColorPicker(start)\<close>: the constructor makes the inner object only when the
  class attribute \<^verbatim>\<open>instance\<close> is still \<^verbatim>\<open>None\<close> (an object is never falsy).
\<close>

definition PlaneColorPicker_init :: "int \<Rightarrow> world \<Rightarrow> world" where
  "PlaneColorPicker_init start w =
     (if picker w = None then w\<lparr>picker := Some start\<rparr> else w)"

text \<open>
  \<^verbatim>\<open>get_color()\<close>: the index is advanced first, then the palette is read at the old
  index.
\<close>

definition get_color :: "world \<Rightarrow> error + (string \<times> world)" where
  "get_color w =
     (case picker w of
        None \<Rightarrow> Inl AttributeError
      | Some cur_index \<Rightarrow>
          (let w1 = w\<lparr>picker := Some ((cur_index + 1) mod int (length PlaneColorPicker_COLORS))\<rparr>
           in case py_index PlaneColorPicker_COLORS cur_index of
                Inl e \<Rightarrow> Inl e
              | Inr c \<Rightarrow> Inr (c, w1)))"

section \<open>Planes\<close>

text \<open>
  \<^verbatim>\<open>plot_plane(normal, d, color, xrange, yrange)\<close>: two \<^verbatim>\<open>if\<close> statements again.
  Only the branch for a 3-vector asks the colour picker, and only when no colour is given.
\<close>

definition plot_plane_3d ::
  "pynum list \<Rightarrow> pynum \<Rightarrow> string option \<Rightarrow> pynum list \<Rightarrow> pynum list \<Rightarrow> world \<Rightarrow> error + world" where
  "plot_plane_3d normal d c xrange yrange w =
     (let ax = gca w;
          w1 = set_aspect ax ''equal'' w;
          normal_x = py_float (normal ! 0);
          normal_y = py_float (normal ! 1);
          normal_z = py_float (normal ! 2);
          d' = py_float d
      in case py_getitem xrange 0 of Inl e \<Rightarrow> Inl e | Inr x0 \<Rightarrow>
        (case py_getitem xrange 1 of Inl e \<Rightarrow> Inl e | Inr x1 \<Rightarrow>
        (case py_getitem yrange 0 of Inl e \<Rightarrow> Inl e | Inr y0 \<Rightarrow>
        (case py_getitem yrange 1 of Inl e \<Rightarrow> Inl e | Inr y1 \<Rightarrow>
          (let x = linspace (py_float x0) (py_float x1) 100;
               y = linspace (py_float y0) (py_float y1) 100;
               (X, Y) = meshgrid x y
           in case (case c of
                      None \<Rightarrow> get_color (PlaneColorPicker_init 0 w1)
                    | Some c' \<Rightarrow> Inr (c', w1)) of
                Inl e \<Rightarrow> Inl e
              | Inr (c', w2) \<Rightarrow>
                  (let Z = map2 (\<lambda>Xrow Yrow.
                             map2 (\<lambda>Xv Yv.
                               np_div (np_sub (np_sub (Fin d') (np_mul (Fin normal_x) Xv))
                                              (np_mul (Fin normal_y) Yv))
                                      (Fin normal_z)) Xrow Yrow) X Y
                   in Inr (add_artist ax (Surface X Y Z (Some c') 0.2) w2)))))))"

definition plot_plane_2d ::
  "pynum list \<Rightarrow> pynum \<Rightarrow> string option \<Rightarrow> pynum list \<Rightarrow> world \<Rightarrow> error + world" where
  "plot_plane_2d normal d c xrange w =
     (let ax = gca w;
          w1 = set_aspect ax ''equal'' w;
          normal_x = py_float (normal ! 0);
          normal_y = py_float (normal ! 1);
          d' = py_float d
      in case py_getitem xrange 0 of Inl e \<Rightarrow> Inl e | Inr x0 \<Rightarrow>
        (case py_getitem xrange 1 of Inl e \<Rightarrow> Inl e | Inr x1 \<Rightarrow>
          (let x = linspace (py_float x0) (py_float x1) 100;
               y = map (\<lambda>xv. np_div (np_sub (Fin d') (np_mul (Fin normal_x) xv)) (Fin normal_y)) x
           in Inr (add_artist ax (Line2D x y c) w1))))"

definition plot_plane ::
  "pynum list \<Rightarrow> pynum \<Rightarrow> string option \<Rightarrow> pynum list \<Rightarrow> pynum list \<Rightarrow> world \<Rightarrow> error + world" where
  "plot_plane normal d c xrange yrange w =
     (case (if length normal = 3 then plot_plane_3d normal d c xrange yrange w else Inr w) of
        Inl e \<Rightarrow> Inl e
      | Inr w1 \<Rightarrow> if length normal = 2 then plot_plane_2d normal d c xrange w1 else Inr w1)"

definition default_range :: "pynum list" where
  "default_range = [PyInt (-5), PyInt 5]"

section \<open>Autoscaling\<close>

fun is_Arrow3D :: "artist \<Rightarrow> bool" where
  "is_Arrow3D (Arrow3D xs ys zs k) = True"
| "is_Arrow3D _ = False"

fun is_Arrow2D :: "artist \<Rightarrow> bool" where
  "is_Arrow2D (Arrow2D xs ys k) = True"
| "is_Arrow2D _ = False"

text \<open>
  The loops that gather the endpoints, two per arrow and axis, in the arrows' order. Each
  runs over a list filtered by type, so the last equation is never reached.
\<close>

fun verts3d_loop ::
  "artist list \<Rightarrow> pynum list \<times> pynum list \<times> pynum list \<Rightarrow> pynum list \<times> pynum list \<times> pynum list" where
  "verts3d_loop [] acc = acc"
| "verts3d_loop (Arrow3D xs ys zs k # rest) (all_xs, all_ys, all_zs) =
     verts3d_loop rest
       (all_xs @ [fst xs, snd xs], all_ys @ [fst ys, snd ys], all_zs @ [fst zs, snd zs])"
| "verts3d_loop (a # rest) acc = verts3d_loop rest acc"

fun verts2d_loop ::
  "artist list \<Rightarrow> pynum list \<times> pynum list \<Rightarrow> pynum list \<times> pynum list" where
  "verts2d_loop [] acc = acc"
| "verts2d_loop (Arrow2D xs ys k # rest) (all_xs, all_ys) =
     verts2d_loop rest (all_xs @ [fst xs, snd xs], all_ys @ [fst ys, snd ys])"
| "verts2d_loop (a # rest) acc = verts2d_loop rest acc"

text \<open>Sequencing of steps that may raise.\<close>

definition and_then :: "error + 'a \<Rightarrow> ('a \<Rightarrow> error + 'b) \<Rightarrow> error + 'b" where
  "and_then r f = (case r of Inl e \<Rightarrow> Inl e | Inr v \<Rightarrow> f v)"

definition scale_3d :: "nat \<Rightarrow> artist list \<Rightarrow> world \<Rightarrow> error + world" where
  "scale_3d ax arrow3Ds w =
     (case verts3d_loop arrow3Ds ([], [], []) of (all_xs, all_ys, all_zs) \<Rightarrow>
        and_then (py_min all_xs) (\<lambda>min_x. and_then (py_max all_xs) (\<lambda>max_x.
        and_then (py_min all_ys) (\<lambda>min_y. and_then (py_max all_ys) (\<lambda>max_y.
        and_then (py_min all_zs) (\<lambda>min_z. and_then (py_max all_zs) (\<lambda>max_z.
        and_then (py_max [num_sub max_x min_x, num_sub max_y min_y, num_sub max_z min_z])
          (\<lambda>cube_side.
             Inr (set_zlim ax min_z (num_add min_z cube_side)
                 (set_ylim ax min_y (num_add min_y cube_side)
                 (set_xlim ax min_x (num_add min_x cube_side) w)))))))))))"

definition scale_2d :: "nat \<Rightarrow> artist list \<Rightarrow> world \<Rightarrow> error + world" where
  "scale_2d ax arrow2Ds w =
     (case verts2d_loop arrow2Ds ([], []) of (all_xs, all_ys) \<Rightarrow>
        and_then (py_min all_xs) (\<lambda>min_x. and_then (py_max all_xs) (\<lambda>max_x.
        and_then (py_min all_ys) (\<lambda>min_y. and_then (py_max all_ys) (\<lambda>max_y.
        and_then (py_max [num_sub max_x min_x, num_sub max_y min_y])
          (\<lambda>square_side.
             Inr (set_ylim ax min_y (num_add min_y square_side)
                 (set_xlim ax min_x (num_add min_x square_side) w))))))))"

text \<open>
  What \<^verbatim>\<open>autoscale_arrows\<close> returns: \<^verbatim>\<open>None\<close> by falling off its end, or the
  integer of its \<^verbatim>\<open>return\<close> statement.
\<close>

datatype retval = RNone | RInt int

text \<open>
  \<^verbatim>\<open>autoscale_arrows(ax)\<close>, \<open>ax\<close> being \<^verbatim>\<open>None\<close> or a reference to an axes.
\<close>

definition autoscale_arrows :: "nat option \<Rightarrow> world \<Rightarrow> error + (retval \<times> world)" where
  "autoscale_arrows ax_arg w =
     (let ax = (case ax_arg of None \<Rightarrow> gca w | Some a \<Rightarrow> a);
          arrow3Ds = filter is_Arrow3D (get_children ax w);
          arrow2Ds = filter is_Arrow2D (get_children ax w)
      in if arrow2Ds \<noteq> [] \<and> arrow3Ds \<noteq> [] then
           Inr (RInt (- 1), py_print ''Mixing Arrow2D and Arrow3D not supported'' w)
         else
           and_then (if arrow3Ds \<noteq> [] then scale_3d ax arrow3Ds w else Inr w) (\<lambda>w1.
           and_then (if arrow2Ds \<noteq> [] then scale_2d ax arrow2Ds w1 else Inr w1) (\<lambda>w2.
             Inr (RNone, w2))))"

section \<open>Notions used in the statements\<close>

text \<open>
  The two endpoints of an arrow, as its \<^verbatim>\<open>draw\<close> method reads them from the stored
  coordinate sequences: the start is the first element of each sequence, the end the
  second.
\<close>

fun arrow_start :: "artist \<Rightarrow> pynum list" where
  "arrow_start (Arrow3D xs ys zs k) = [fst xs, fst ys, fst zs]"
| "arrow_start (Arrow2D xs ys k) = [fst xs, fst ys]"
| "arrow_start a = []"

fun arrow_end :: "artist \<Rightarrow> pynum list" where
  "arrow_end (Arrow3D xs ys zs k) = [snd xs, snd ys, snd zs]"
| "arrow_end (Arrow2D xs ys k) = [snd xs, snd ys]"
| "arrow_end a = []"

text \<open>The colour an artifact was given, if any.\<close>

fun artist_color :: "artist \<Rightarrow> string option" where
  "artist_color (Arrow3D xs ys zs k) = Some (color k)"
| "artist_color (Arrow2D xs ys k) = Some (color k)"
| "artist_color (Line2D x y c) = c"
| "artist_color (Line3D x y z c) = c"
| "artist_color (Surface X Y Z c a) = c"

text \<open>The axes \<^verbatim>\<open>autoscale_arrows\<close> works on: the one given, or the current one.\<close>

definition given_axes :: "nat option \<Rightarrow> world \<Rightarrow> nat" where
  "given_axes ax_arg w = (case ax_arg of None \<Rightarrow> gca w | Some a \<Rightarrow> a)"

text \<open>
  The endpoints of a list of arrows, and the least and greatest value of their \<open>i\<close>-th
  coordinate: the bounding box.
\<close>

definition endpoints :: "artist list \<Rightarrow> pynum list list" where
  "endpoints arrows = concat (map (\<lambda>a. [arrow_start a, arrow_end a]) arrows)"

definition coord_min :: "nat \<Rightarrow> pynum list list \<Rightarrow> real" where
  "coord_min i pts = Min ((\<lambda>p. num_val (p ! i)) ` set pts)"

definition coord_max :: "nat \<Rightarrow> pynum list list \<Rightarrow> real" where
  "coord_max i pts = Max ((\<lambda>p. num_val (p ! i)) ` set pts)"

text \<open>The limits of an axis as a pair of values.\<close>

definition lim_vals :: "pynum \<times> pynum \<Rightarrow> real \<times> real" where
  "lim_vals l = (num_val (fst l), num_val (snd l))"

text \<open>The coordinates the gathering loop reads from one arrow for axis \<open>i\<close>.\<close>

fun verts3d_of :: "nat \<Rightarrow> artist \<Rightarrow> pynum list" where
  "verts3d_of i (Arrow3D xs ys zs k) =
     (if i = 0 then [fst xs, snd xs] else if i = 1 then [fst ys, snd ys] else [fst zs, snd zs])"
| "verts3d_of i a = []"

text \<open>
  A canvas holding one 3D arrow from \<open>(0, 0, 0)\<close> to \<open>(2, 4, 6)\<close>: what
  \<^verbatim>\<open>plot_vec([2, 4, 6])\<close> adds to the fresh axes.
\<close>

definition one_arrow_world :: world where
  "one_arrow_world = add_artist 0
     (Arrow3D (PyInt 0, PyFloat 2) (PyInt 0, PyFloat 4) (PyInt 0, PyFloat 6) (vec_kwargs ''k''))
     world0"

text \<open>The same canvas with a 2D arrow from \<open>(0, 0)\<close> to \<open>(1, 1)\<close> beside the 3D arrow.\<close>

definition mixed_world :: world where
  "mixed_world = add_artist 0
     (Arrow2D (PyInt 0, PyFloat 1) (PyInt 0, PyFloat 1) (vec_kwargs ''k''))
     one_arrow_world"

text \<open>A canvas whose only artifact is a polyline.\<close>

definition one_line_world :: world where
  "one_line_world = add_artist 0 (Line2D [Fin 0, Fin 1] [Fin 0, Fin 1] None) world0"

text \<open>The coordinate arrays of a polyline, one per axis.\<close>

fun line_arrays :: "artist \<Rightarrow> npfloat list list" where
  "line_arrays (Line2D x y c) = [x, y]"
| "line_arrays (Line3D x y z c) = [x, y, z]"
| "line_arrays a = []"

text \<open>The \<open>j\<close>-th of 100 evenly spaced values from \<open>lo\<close> to \<open>hi\<close>.\<close>

definition grid_sample :: "real \<Rightarrow> real \<Rightarrow> nat \<Rightarrow> real" where
  "grid_sample lo hi j = lo + real j * ((hi - lo) / 99)"

text \<open>
  The colour picker is not yet created, or its index designates an entry of the palette;
  and the index the next request reads the palette at (0 for a picker that
  \<^verbatim>\<open>plot_plane\<close> has yet to create).
\<close>

definition picker_in_palette :: "world \<Rightarrow> bool" where
  "picker_in_palette w =
     (case picker w of None \<Rightarrow> True
      | Some i \<Rightarrow> 0 \<le> i \<and> i < int (length PlaneColorPicker_COLORS))"

definition next_index :: "world \<Rightarrow> nat" where
  "next_index w = (case picker w of None \<Rightarrow> 0 | Some i \<Rightarrow> nat i)"

text \<open>A fresh process in which the picker was created and has advanced to its last entry.\<close>

definition wrap_world :: world where
  "wrap_world = world0\<lparr>picker := Some 5\<rparr>"

text \<open>The arrow \<^verbatim>\<open>plot_vec\<close> draws for a vector of length 2 or 3 from the default origin.\<close>

definition default_arrow :: "pynum list \<Rightarrow> string \<Rightarrow> artist" where
  "default_arrow vec c =
     (if length vec = 3 then
        Arrow3D (PyInt 0, PyFloat (py_float (vec ! 0))) (PyInt 0, PyFloat (py_float (vec ! 1)))
                (PyInt 0, PyFloat (py_float (vec ! 2))) (vec_kwargs c)
      else
        Arrow2D (PyInt 0, PyFloat (py_float (vec ! 0))) (PyInt 0, PyFloat (py_float (vec ! 1)))
                (vec_kwargs c))"

text \<open>Seven 2-vectors.\<close>

definition seven_vectors :: "pynum list list" where
  "seven_vectors = [[PyInt 1, PyInt 0], [PyInt 0, PyInt 1], [PyInt 1, PyInt 1],
                    [PyInt 2, PyInt 1], [PyInt 1, PyInt 2], [PyInt 2, PyInt 2],
                    [PyInt 3, PyInt 1]]"

section \<open>Auxiliary facts\<close>

lemma length_2_cases: "length xs = 2 \<Longrightarrow> \<exists>a b. xs = [a, b]"
  by (cases xs; simp; cases "tl xs"; auto)

lemma length_3_cases: "length xs = 3 \<Longrightarrow> \<exists>a b c. xs = [a, b, c]"
  by (cases xs; simp; cases "tl xs"; simp; cases "tl (tl xs)"; auto)

lemma length_ge_2_cases: "2 \<le> length xs \<Longrightarrow> \<exists>a b r. xs = a # b # r"
  by (cases xs; simp; cases "tl xs"; auto)

lemma length_ge_3_cases: "3 \<le> length xs \<Longrightarrow> \<exists>a b c r. xs = a # b # c # r"
  by (cases xs; simp; cases "tl xs"; simp; cases "tl (tl xs)"; auto)

lemma num_val_sub: "num_val (num_sub a b) = num_val a - num_val b"
  by (cases a; cases b) simp_all

lemma num_val_add: "num_val (num_add a b) = num_val a + num_val b"
  by (cases a; cases b) simp_all

lemma fold_min_props:
  "fold (\<lambda>y m. if num_val y < num_val m then y else m) xs x \<in> set (x # xs) \<and>
   (\<forall>z \<in> set (x # xs).
      num_val (fold (\<lambda>y m. if num_val y < num_val m then y else m) xs x) \<le> num_val z)"
proof (induction xs arbitrary: x)
  case Nil
  then show ?case by simp
next
  case (Cons a xs)
  show ?case using Cons[of a] Cons[of x] by (auto simp: not_less)
qed

lemma fold_max_props:
  "fold (\<lambda>y m. if num_val m < num_val y then y else m) xs x \<in> set (x # xs) \<and>
   (\<forall>z \<in> set (x # xs).
      num_val z \<le> num_val (fold (\<lambda>y m. if num_val m < num_val y then y else m) xs x))"
proof (induction xs arbitrary: x)
  case Nil
  then show ?case by simp
next
  case (Cons a xs)
  show ?case using Cons[of a] Cons[of x] by (auto simp: not_less)
qed

lemma py_min_val:
  assumes "xs \<noteq> []"
  shows "\<exists>m. py_min xs = Inr m \<and> num_val m = Min (num_val ` set xs)"
proof -
  from assms obtain x r where xs: "xs = x # r" by (cases xs) auto
  let ?m = "fold (\<lambda>y m. if num_val y < num_val m then y else m) r x"
  have "num_val ?m = Min (num_val ` set (x # r))"
    using fold_min_props[of r x] by (intro Min_eqI[symmetric]) auto
  then show ?thesis by (simp add: xs)
qed

lemma py_max_val:
  assumes "xs \<noteq> []"
  shows "\<exists>m. py_max xs = Inr m \<and> num_val m = Max (num_val ` set xs)"
proof -
  from assms obtain x r where xs: "xs = x # r" by (cases xs) auto
  let ?m = "fold (\<lambda>y m. if num_val m < num_val y then y else m) r x"
  have "num_val ?m = Max (num_val ` set (x # r))"
    using fold_max_props[of r x] by (intro Max_eqI[symmetric]) auto
  then show ?thesis by (simp add: xs)
qed

lemma verts3d_loop_eq:
  "verts3d_loop arrows (ax, ay, az) =
     (ax @ concat (map (verts3d_of 0) arrows),
      ay @ concat (map (verts3d_of 1) arrows),
      az @ concat (map (verts3d_of 2) arrows))"
proof (induction arrows arbitrary: ax ay az)
  case Nil
  then show ?case by simp
next
  case (Cons a arrows)
  then show ?case by (cases a) simp_all
qed

lemma verts3d_vals:
  assumes "\<forall>a \<in> set arrows. is_Arrow3D a" and "i < 3"
  shows "num_val ` set (concat (map (verts3d_of i) arrows)) =
         (\<lambda>p. num_val (p ! i)) ` set (endpoints arrows)"
  using assms
proof (induction arrows)
  case Nil
  then show ?case by (simp add: endpoints_def)
next
  case (Cons a arrows)
  from Cons.prems obtain xs ys zs k where a: "a = Arrow3D xs ys zs k"
    by (cases a) auto
  have "i = 0 \<or> i = 1 \<or> i = 2" using Cons.prems(2) by auto
  then have "num_val ` set (verts3d_of i a) =
      (\<lambda>p. num_val (p ! i)) ` {arrow_start a, arrow_end a}"
    by (auto simp: a)
  moreover have "num_val ` set (concat (map (verts3d_of i) arrows)) =
         (\<lambda>p. num_val (p ! i)) ` set (endpoints arrows)"
    using Cons by simp
  ultimately show ?case
    by (simp add: endpoints_def image_Un)
qed

lemma verts3d_nonempty:
  assumes "arrows \<noteq> []" and "\<forall>a \<in> set arrows. is_Arrow3D a"
  shows "concat (map (verts3d_of i) arrows) \<noteq> []"
proof -
  from assms obtain a r where ar: "arrows = a # r" by (cases arrows) auto
  with assms(2) obtain xs ys zs k where "a = Arrow3D xs ys zs k" by (cases a) auto
  then show ?thesis by (simp add: ar)
qed

lemma scale_3d_result:
  assumes ne: "arrows \<noteq> []" and all3: "\<forall>a \<in> set arrows. is_Arrow3D a"
  shows "\<exists>min_x min_y min_z cube_side.
           scale_3d ax arrows w =
             Inr (set_zlim ax min_z (num_add min_z cube_side)
                 (set_ylim ax min_y (num_add min_y cube_side)
                 (set_xlim ax min_x (num_add min_x cube_side) w)))
         \<and> num_val min_x = coord_min 0 (endpoints arrows)
         \<and> num_val min_y = coord_min 1 (endpoints arrows)
         \<and> num_val min_z = coord_min 2 (endpoints arrows)
         \<and> num_val cube_side =
             Max {coord_max 0 (endpoints arrows) - coord_min 0 (endpoints arrows),
                  coord_max 1 (endpoints arrows) - coord_min 1 (endpoints arrows),
                  coord_max 2 (endpoints arrows) - coord_min 2 (endpoints arrows)}"
proof -
  let ?xs = "concat (map (verts3d_of 0) arrows)"
  let ?ys = "concat (map (verts3d_of 1) arrows)"
  let ?zs = "concat (map (verts3d_of 2) arrows)"
  have loop: "verts3d_loop arrows ([], [], []) = (?xs, ?ys, ?zs)"
    by (simp add: verts3d_loop_eq)
  obtain min_x where min_x: "py_min ?xs = Inr min_x"
      "num_val min_x = coord_min 0 (endpoints arrows)"
    using py_min_val[OF verts3d_nonempty[OF ne all3, of 0]] verts3d_vals[OF all3, of 0]
    by (auto simp: coord_min_def)
  obtain max_x where max_x: "py_max ?xs = Inr max_x"
      "num_val max_x = coord_max 0 (endpoints arrows)"
    using py_max_val[OF verts3d_nonempty[OF ne all3, of 0]] verts3d_vals[OF all3, of 0]
    by (auto simp: coord_max_def)
  obtain min_y where min_y: "py_min ?ys = Inr min_y"
      "num_val min_y = coord_min 1 (endpoints arrows)"
    using py_min_val[OF verts3d_nonempty[OF ne all3, of 1]] verts3d_vals[OF all3, of 1]
    by (auto simp: coord_min_def)
  obtain max_y where max_y: "py_max ?ys = Inr max_y"
      "num_val max_y = coord_max 1 (endpoints arrows)"
    using py_max_val[OF verts3d_nonempty[OF ne all3, of 1]] verts3d_vals[OF all3, of 1]
    by (auto simp: coord_max_def)
  obtain min_z where min_z: "py_min ?zs = Inr min_z"
      "num_val min_z = coord_min 2 (endpoints arrows)"
    using py_min_val[OF verts3d_nonempty[OF ne all3, of 2]] verts3d_vals[OF all3, of 2]
    by (auto simp: coord_min_def)
  obtain max_z where max_z: "py_max ?zs = Inr max_z"
      "num_val max_z = coord_max 2 (endpoints arrows)"
    using py_max_val[OF verts3d_nonempty[OF ne all3, of 2]] verts3d_vals[OF all3, of 2]
    by (auto simp: coord_max_def)
  let ?ext = "[num_sub max_x min_x, num_sub max_y min_y, num_sub max_z min_z]"
  obtain cube_side where side: "py_max ?ext = Inr cube_side"
      "num_val cube_side = Max (num_val ` set ?ext)"
    using py_max_val[of ?ext] by auto
  have "scale_3d ax arrows w =
             Inr (set_zlim ax min_z (num_add min_z cube_side)
                 (set_ylim ax min_y (num_add min_y cube_side)
                 (set_xlim ax min_x (num_add min_x cube_side) w)))"
    unfolding scale_3d_def loop
    using min_x(1) max_x(1) min_y(1) max_y(1) min_z(1) max_z(1) side(1)
    by (simp add: and_then_def)
  moreover have "num_val cube_side =
             Max {coord_max 0 (endpoints arrows) - coord_min 0 (endpoints arrows),
                  coord_max 1 (endpoints arrows) - coord_min 1 (endpoints arrows),
                  coord_max 2 (endpoints arrows) - coord_min 2 (endpoints arrows)}"
    using side(2) min_x(2) max_x(2) min_y(2) max_y(2) min_z(2) max_z(2)
    by (simp add: num_val_sub)
  ultimately show ?thesis using min_x(2) min_y(2) min_z(2) by blast
qed

lemma upt_2: "[0..<2] = [0, 1]"
  by (simp add: upt_rec)

lemma upt_3: "[0..<3] = [0, 1, 2]"
  by (simp add: upt_rec)

lemma upt_7: "[0..<7] = [0, 1, 2, 3, 4, 5, 6]"
  by (simp add: upt_rec)

lemma linspace_grid: "linspace lo hi 100 = map (\<lambda>j. Fin (grid_sample lo hi j)) [0..<100]"
  by (simp add: linspace_def grid_sample_def)

lemma grid_sample_ends: "grid_sample lo hi 0 = lo" "grid_sample lo hi 99 = hi"
  by (simp_all add: grid_sample_def field_simps)

lemma map2_same: "map2 f (map g xs) (map h xs) = map (\<lambda>x. f (g x) (h x)) xs"
  by (induction xs) auto

lemma np_sub_Fin: "np_sub (Fin a) (Fin b) = Fin (a - b)"
  by (simp add: np_sub_def)

lemma np_div_Fin: "b \<noteq> 0 \<Longrightarrow> np_div (Fin a) (Fin b) = Fin (a / b)"
  by simp

lemma np_sample_point:
  "dx \<noteq> 0 \<Longrightarrow>
   np_add (Fin p) (np_mul (Fin dk) (np_div (np_sub (Fin t) (Fin px)) (Fin dx))) =
     Fin (p + (t - px) / dx * dk)"
  by (simp add: np_sub_def)

lemma np_degenerate_x:
  "np_add (Fin p) (np_mul (Fin 0) (np_div (np_sub (Fin t) (Fin p)) (Fin 0))) = NaN"
  by (simp add: np_sub_def signed_inf_def)

lemma picker_set_aspect: "picker_in_palette (set_aspect ax a w) = picker_in_palette w"
  by (simp add: picker_in_palette_def set_aspect_def)

lemma next_index_set_aspect: "next_index (set_aspect ax a w) = next_index w"
  by (simp add: next_index_def set_aspect_def)

lemma next_index_less: "picker_in_palette w \<Longrightarrow> next_index w < 6"
  by (auto simp: picker_in_palette_def next_index_def PlaneColorPicker_COLORS_def
      split: option.splits)

lemma get_color_in_palette:
  assumes "picker w = Some i" and "0 \<le> i" and "i < 6"
  shows "get_color w =
           Inr (PlaneColorPicker_COLORS ! nat i, w\<lparr>picker := Some ((i + 1) mod 6)\<rparr>)"
  using assms
  by (simp add: get_color_def py_index_def PlaneColorPicker_COLORS_def)

lemma pick_color:
  assumes "picker_in_palette w"
  shows "get_color (PlaneColorPicker_init 0 w) =
           Inr (PlaneColorPicker_COLORS ! next_index w,
                w\<lparr>picker := Some ((int (next_index w) + 1) mod 6)\<rparr>)"
proof (cases "picker w")
  case None
  then show ?thesis
    by (simp add: get_color_def PlaneColorPicker_init_def next_index_def py_index_def
        PlaneColorPicker_COLORS_def)
next
  case (Some i)
  with assms have "0 \<le> i" "i < 6"
    by (simp_all add: picker_in_palette_def PlaneColorPicker_COLORS_def)
  then show ?thesis using Some
    by (simp add: get_color_def PlaneColorPicker_init_def next_index_def py_index_def
        PlaneColorPicker_COLORS_def)
qed

lemma palette_successive_distinct:
  assumes "k < 6"
  shows "PlaneColorPicker_COLORS ! k \<noteq> PlaneColorPicker_COLORS ! (Suc k mod 6)"
proof -
  from assms have "k = 0 \<or> k = 1 \<or> k = 2 \<or> k = 3 \<or> k = 4 \<or> k = 5" by auto
  then show ?thesis by (auto simp: PlaneColorPicker_COLORS_def)
qed

lemma plot_plane_3d_picks:
  assumes "length normal = 3" and "2 \<le> length xrange" and "2 \<le> length yrange"
      and "picker_in_palette w"
  shows "\<exists>w' sf. plot_plane normal d None xrange yrange w = Inr w'
         \<and> picker w' = Some ((int (next_index w) + 1) mod 6)
         \<and> gca w' = gca w
         \<and> get_children (gca w) w' = get_children (gca w) w @ [sf]
         \<and> artist_color sf = Some (PlaneColorPicker_COLORS ! next_index w)"
proof -
  from assms(2) obtain x0 x1 xr where x: "xrange = x0 # x1 # xr"
    using length_ge_2_cases by blast
  from assms(3) obtain y0 y1 yr where y: "yrange = y0 # y1 # yr"
    using length_ge_2_cases by blast
  from assms(4) have "picker_in_palette (set_aspect (gca w) ''equal'' w)"
    by (simp add: picker_set_aspect)
  from pick_color[OF this]
  have pc: "get_color (PlaneColorPicker_init 0 (set_aspect (gca w) ''equal'' w)) =
         Inr (PlaneColorPicker_COLORS ! next_index w,
              (set_aspect (gca w) ''equal'' w)
                \<lparr>picker := Some ((int (next_index w) + 1) mod 6)\<rparr>)"
    by (simp add: next_index_set_aspect)
  show ?thesis unfolding x y using assms(1) pc
    by (simp add: plot_plane_def plot_plane_3d_def py_getitem_def Let_def
        meshgrid_def add_artist_def set_aspect_def gca_def get_children_def)
qed

lemma plot_vec_default:
  assumes "length vec = 2 \<or> length vec = 3"
  shows "plot_vec vec default_at c w =
           Inr (add_artist (gca w) (default_arrow vec c) (set_aspect (gca w) ''equal'' w))"
  using assms
  by (auto simp add: plot_vec_def default_at_def py_getitem_def Let_def default_arrow_def)

lemma default_arrow_color: "artist_color (default_arrow vec c) = Some c"
  by (simp add: default_arrow_def vec_kwargs_def)

lemma default_arrow_end:
  assumes "length vec = 2 \<or> length vec = 3"
  shows "arrow_end (default_arrow vec c) = map (\<lambda>x. PyFloat (py_float x)) vec"
proof (cases "length vec = 3")
  case True
  then obtain a b d where "vec = [a, b, d]" using length_3_cases by blast
  then show ?thesis by (simp add: default_arrow_def)
next
  case False
  with assms have "length vec = 2" by simp
  then obtain a b where "vec = [a, b]" using length_2_cases by blast
  then show ?thesis by (simp add: default_arrow_def)
qed

lemma plot_vecs_loop_result:
  assumes "\<forall>v \<in> set vs. length v = 2 \<or> length v = 3"
  shows "\<exists>w'. plot_vecs_loop i vs w = Inr w'
           \<and> gca w' = gca w \<and> picker w' = picker w \<and> out w' = out w
           \<and> get_children (gca w) w' = get_children (gca w) w @
                map (\<lambda>j. default_arrow (vs ! j) (plot_vecs_COLORS ! ((i + j) mod 6)))
                    [0..<length vs]
           \<and> (\<forall>p. plot_vecs_loop i vs (w\<lparr>picker := p\<rparr>) = Inr (w'\<lparr>picker := p\<rparr>))"
  using assms
proof (induction vs arbitrary: i w)
  case Nil
  then show ?case by simp
next
  case (Cons v vs)
  let ?c = "plot_vecs_COLORS ! (i mod 6)"
  let ?w1 = "add_artist (gca w) (default_arrow v ?c) (set_aspect (gca w) ''equal'' w)"
  from Cons.prems have v: "length v = 2 \<or> length v = 3" and
    vs: "\<forall>v \<in> set vs. length v = 2 \<or> length v = 3" by simp_all
  have len: "length plot_vecs_COLORS = 6" by (simp add: plot_vecs_COLORS_def)
  have step: "\<And>u. plot_vec v default_at ?c u =
      Inr (add_artist (gca u) (default_arrow v ?c) (set_aspect (gca u) ''equal'' u))"
    using plot_vec_default[OF v] by simp
  from Cons.IH[OF vs, of "Suc i" ?w1]
  obtain w' where r: "plot_vecs_loop (Suc i) vs ?w1 = Inr w'"
    and g: "gca w' = gca ?w1" and pk: "picker w' = picker ?w1" and o: "out w' = out ?w1"
    and ch: "get_children (gca ?w1) w' = get_children (gca ?w1) ?w1 @
                map (\<lambda>j. default_arrow (vs ! j) (plot_vecs_COLORS ! ((Suc i + j) mod 6)))
                    [0..<length vs]"
    and ind: "\<forall>p. plot_vecs_loop (Suc i) vs (?w1\<lparr>picker := p\<rparr>) = Inr (w'\<lparr>picker := p\<rparr>)"
    by blast
  have g1: "gca ?w1 = gca w" by (simp add: gca_def add_artist_def set_aspect_def)
  have ch1: "get_children (gca w) ?w1 = get_children (gca w) w @ [default_arrow v ?c]"
    by (simp add: get_children_def add_artist_def set_aspect_def)
  have "plot_vecs_loop i (v # vs) w = Inr w'"
    using r step[of w] by (simp add: len)
  moreover have "gca w' = gca w" using g g1 by simp
  moreover have "picker w' = picker w" using pk by (simp add: add_artist_def set_aspect_def)
  moreover have "out w' = out w" using o by (simp add: add_artist_def set_aspect_def)
  moreover have "get_children (gca w) w' = get_children (gca w) w @
                map (\<lambda>j. default_arrow ((v # vs) ! j) (plot_vecs_COLORS ! ((i + j) mod 6)))
                    [0..<length (v # vs)]"
    using ch ch1 unfolding g1 by (simp add: map_upt_Suc del: upt_Suc)
  moreover have "\<forall>p. plot_vecs_loop i (v # vs) (w\<lparr>picker := p\<rparr>) = Inr (w'\<lparr>picker := p\<rparr>)"
  proof
    fix p
    have "add_artist (gca (w\<lparr>picker := p\<rparr>)) (default_arrow v ?c)
            (set_aspect (gca (w\<lparr>picker := p\<rparr>)) ''equal'' (w\<lparr>picker := p\<rparr>))
          = ?w1\<lparr>picker := p\<rparr>"
      by (simp add: gca_def add_artist_def set_aspect_def)
    then show "plot_vecs_loop i (v # vs) (w\<lparr>picker := p\<rparr>) = Inr (w'\<lparr>picker := p\<rparr>)"
      using ind step[of "w\<lparr>picker := p\<rparr>"] by (simp add: len)
  qed
  ultimately show ?case by blast
qed

section \<open>The vector renderer\<close>

text \<open>
  C1, as amended. For every vector of length 2 or 3 and every origin \<open>at\<close> that has at
  least as many components as the vector, \<^verbatim>\<open>plot_vec\<close> returns normally, adds
  exactly one arrow to the current axes (a 3D arrow for length 3, a 2D arrow for length
  2) whose start is the first components of \<open>at\<close>, as they are, and whose end is the
  components of the vector converted to float (not \<open>at\<close> plus the vector), in the given
  colour, and sets the aspect of that axes to equal.
\<close>

theorem C1_plot_vec_adds_one_arrow:
  assumes "length vec = 2 \<or> length vec = 3" and "length vec \<le> length at_pt"
  shows "\<exists>w' a. plot_vec vec at_pt c w = Inr w'
           \<and> get_children (gca w) w' = get_children (gca w) w @ [a]
           \<and> (if length vec = 3 then is_Arrow3D a else is_Arrow2D a)
           \<and> arrow_start a = take (length vec) at_pt
           \<and> arrow_end a = map (\<lambda>x. PyFloat (py_float x)) vec
           \<and> artist_color a = Some c
           \<and> aspect (axs w' (gca w)) = ''equal''"
proof (cases "length vec = 3")
  case True
  then obtain v0 v1 v2 where v: "vec = [v0, v1, v2]" using length_3_cases by blast
  from True assms(2) obtain p0 p1 p2 r where p: "at_pt = p0 # p1 # p2 # r"
    using length_ge_3_cases[of at_pt] by auto
  show ?thesis unfolding v p
    by (simp add: plot_vec_def py_getitem_def Let_def add_artist_def set_aspect_def
        get_children_def gca_def vec_kwargs_def)
next
  case False
  with assms(1) have l2: "length vec = 2" by simp
  then obtain v0 v1 where v: "vec = [v0, v1]" using length_2_cases by blast
  from l2 assms(2) obtain p0 p1 r where p: "at_pt = p0 # p1 # r"
    using length_ge_2_cases[of at_pt] by auto
  show ?thesis unfolding v p
    by (simp add: plot_vec_def py_getitem_def Let_def add_artist_def set_aspect_def
        get_children_def gca_def vec_kwargs_def)
qed

text \<open>
  C1, witness: \<^verbatim>\<open>plot_vec([2, 4, 6])\<close> on the fresh canvas, with the default origin and
  colour, adds the one arrow from \<open>(0, 0, 0)\<close> to \<open>(2.0, 4.0, 6.0)\<close>.
\<close>

theorem C1_plot_vec_witness:
  "(length [PyInt 2, PyInt 4, PyInt 6] = 2 \<or> length [PyInt 2, PyInt 4, PyInt 6] = 3) \<and>
   length [PyInt 2, PyInt 4, PyInt 6] \<le> length default_at \<and>
   (\<exists>w' a. plot_vec [PyInt 2, PyInt 4, PyInt 6] default_at ''k'' world0 = Inr w'
           \<and> get_children (gca world0) w' = [a]
           \<and> is_Arrow3D a
           \<and> arrow_start a = [PyInt 0, PyInt 0, PyInt 0]
           \<and> arrow_end a = [PyFloat 2, PyFloat 4, PyFloat 6]
           \<and> artist_color a = Some ''k''
           \<and> aspect (axs w' (gca world0)) = ''equal'')"
  using C1_plot_vec_adds_one_arrow[of "[PyInt 2, PyInt 4, PyInt 6]" default_at "''k''" world0]
  by (simp add: default_at_def get_children_def world0_def empty_axes_def gca_def py_float_def)

text \<open>
  C1, counterexample to the claim as stated (every origin): a 3-vector with the origin
  \<^verbatim>\<open>[0, 0]\<close> raises \<^verbatim>\<open>IndexError\<close> when \<^verbatim>\<open>at[2]\<close> is read, and no arrow is added.
\<close>

theorem C1_short_origin_counterexample:
  "plot_vec [PyInt 1, PyInt 2, PyInt 3] [PyInt 0, PyInt 0] ''k'' world0 = Inl IndexError"
  by (simp add: plot_vec_def py_getitem_def Let_def)

text \<open>
  C9. For every vector whose length is neither 2 nor 3, \<^verbatim>\<open>plot_vec\<close> returns normally
  (it raises nothing), prints its error message, and changes nothing else: no axes gets
  an artifact or a new aspect.
\<close>

theorem C9_plot_vec_unsupported_length:
  assumes "length vec \<noteq> 2" and "length vec \<noteq> 3"
  shows "\<exists>w'. plot_vec vec at_pt c w = Inr w' \<and> axs w' = axs w \<and> cur w' = cur w
           \<and> picker w' = picker w
           \<and> out w' = out w @ [''Error: plot_vec supports only 2D and 3D vectors.'']"
  using assms by (simp add: plot_vec_def py_print_def)

text \<open>C9, witness: a vector of length 1 on the fresh canvas.\<close>

theorem C9_plot_vec_unsupported_witness:
  "length [PyInt 1] \<noteq> 2 \<and> length [PyInt 1] \<noteq> 3 \<and>
   plot_vec [PyInt 1] default_at ''k'' world0 =
     Inr (world0\<lparr>out := [''Error: plot_vec supports only 2D and 3D vectors.'']\<rparr>)"
  using C9_plot_vec_unsupported_length[of "[PyInt 1]" default_at "''k''" world0]
  by (auto simp: world0_def)

text \<open>
  C8. For vectors of length 2 or 3, \<^verbatim>\<open>plot_vecs\<close> returns normally and adds one arrow
  per vector, in order, to the current axes; the arrow of the vector at position \<open>j\<close> has
  the colour at position \<open>j mod 6\<close> of the fixed palette black, blue, green, red, cyan,
  magenta and ends at that vector's components. The state of the plane colour picker
  plays no part: it is left as it was, and with any other picker state \<open>p\<close> the call
  gives the same result, \<open>p\<close> kept.
\<close>

theorem C8_plot_vecs_colors:
  assumes "\<forall>v \<in> set vs. length v = 2 \<or> length v = 3"
  shows "\<exists>w' new. plot_vecs vs w = Inr w'
           \<and> get_children (gca w) w' = get_children (gca w) w @ new
           \<and> map artist_color new =
                map (\<lambda>j. Some (plot_vecs_COLORS ! (j mod 6))) [0..<length vs]
           \<and> map arrow_end new = map (map (\<lambda>x. PyFloat (py_float x))) vs
           \<and> plot_vecs_COLORS = [''k'', ''b'', ''g'', ''r'', ''c'', ''m'']
           \<and> picker w' = picker w
           \<and> (\<forall>p. plot_vecs vs (w\<lparr>picker := p\<rparr>) = Inr (w'\<lparr>picker := p\<rparr>))"
proof -
  from plot_vecs_loop_result[OF assms, of 0 w]
  obtain w' where r: "plot_vecs_loop 0 vs w = Inr w'"
    and pk: "picker w' = picker w"
    and ch: "get_children (gca w) w' = get_children (gca w) w @
                map (\<lambda>j. default_arrow (vs ! j) (plot_vecs_COLORS ! ((0 + j) mod 6)))
                    [0..<length vs]"
    and ind: "\<forall>p. plot_vecs_loop 0 vs (w\<lparr>picker := p\<rparr>) = Inr (w'\<lparr>picker := p\<rparr>)"
    by blast
  let ?new = "map (\<lambda>j. default_arrow (vs ! j) (plot_vecs_COLORS ! (j mod 6))) [0..<length vs]"
  have "map artist_color ?new = map (\<lambda>j. Some (plot_vecs_COLORS ! (j mod 6))) [0..<length vs]"
    by (simp add: default_arrow_color)
  moreover have "map arrow_end ?new = map (map (\<lambda>x. PyFloat (py_float x))) vs"
    using assms by (intro nth_equalityI) (simp_all add: default_arrow_end)
  moreover have "get_children (gca w) w' = get_children (gca w) w @ ?new"
    using ch by simp
  ultimately show ?thesis using r pk ind
    by (auto simp add: plot_vecs_def plot_vecs_COLORS_def)
qed

text \<open>
  C8, witness: seven vectors on a fresh canvas whose colour picker stands at index 3
  receive black, blue, green, red, cyan, magenta, black, and the picker still stands
  at 3.
\<close>

theorem C8_plot_vecs_seven_witness:
  "\<exists>w' new. plot_vecs seven_vectors (world0\<lparr>picker := Some 3\<rparr>) = Inr w'
      \<and> get_children 0 w' = new
      \<and> map artist_color new =
          [Some ''k'', Some ''b'', Some ''g'', Some ''r'', Some ''c'', Some ''m'', Some ''k'']
      \<and> picker w' = Some 3"
  using C8_plot_vecs_colors[of seven_vectors "world0\<lparr>picker := Some 3\<rparr>"]
  by (auto simp add: seven_vectors_def upt_7 world0_def empty_axes_def gca_def get_children_def
      plot_vecs_COLORS_def)

section \<open>The autoscale utility\<close>

text \<open>
  C4. When the given axes holds at least one 3D arrow and no 2D arrow,
  \<^verbatim>\<open>autoscale_arrows\<close> returns \<^verbatim>\<open>None\<close> and sets the limits of each of the three axes
  to \<open>[min, min + cube_side]\<close>, where \<open>min\<close> is the least value of that coordinate over
  all endpoints of the 3D arrows and \<open>cube_side\<close> is the greatest of the three extents
  of their bounding box. The children and the printed output stay as they were.
\<close>

theorem C4_autoscale_3d_cube:
  assumes "\<exists>a \<in> set (get_children (given_axes ax_arg w) w). is_Arrow3D a"
      and "\<forall>a \<in> set (get_children (given_axes ax_arg w) w). \<not> is_Arrow2D a"
  shows "let ax = given_axes ax_arg w;
             pts = endpoints (filter is_Arrow3D (get_children ax w));
             cube_side = Max {coord_max 0 pts - coord_min 0 pts,
                              coord_max 1 pts - coord_min 1 pts,
                              coord_max 2 pts - coord_min 2 pts}
         in \<exists>w'. autoscale_arrows ax_arg w = Inr (RNone, w')
              \<and> lim_vals (xlim (axs w' ax)) = (coord_min 0 pts, coord_min 0 pts + cube_side)
              \<and> lim_vals (ylim (axs w' ax)) = (coord_min 1 pts, coord_min 1 pts + cube_side)
              \<and> lim_vals (zlim (axs w' ax)) = (coord_min 2 pts, coord_min 2 pts + cube_side)
              \<and> children (axs w' ax) = children (axs w ax)
              \<and> out w' = out w"
proof -
  let ?ax = "given_axes ax_arg w"
  let ?a3 = "filter is_Arrow3D (get_children ?ax w)"
  from assms have f2: "filter is_Arrow2D (get_children ?ax w) = []"
    and f3: "?a3 \<noteq> []"
    by (auto simp: filter_empty_conv)
  have all3: "\<forall>a \<in> set ?a3. is_Arrow3D a" by simp
  from scale_3d_result[OF f3 all3, of ?ax w]
  obtain min_x min_y min_z cube_side where
    r: "scale_3d ?ax ?a3 w =
             Inr (set_zlim ?ax min_z (num_add min_z cube_side)
                 (set_ylim ?ax min_y (num_add min_y cube_side)
                 (set_xlim ?ax min_x (num_add min_x cube_side) w)))"
    and v: "num_val min_x = coord_min 0 (endpoints ?a3)"
       "num_val min_y = coord_min 1 (endpoints ?a3)"
       "num_val min_z = coord_min 2 (endpoints ?a3)"
       "num_val cube_side =
             Max {coord_max 0 (endpoints ?a3) - coord_min 0 (endpoints ?a3),
                  coord_max 1 (endpoints ?a3) - coord_min 1 (endpoints ?a3),
                  coord_max 2 (endpoints ?a3) - coord_min 2 (endpoints ?a3)}"
    by blast
  have "autoscale_arrows ax_arg w =
      Inr (RNone, set_zlim ?ax min_z (num_add min_z cube_side)
                 (set_ylim ?ax min_y (num_add min_y cube_side)
                 (set_xlim ?ax min_x (num_add min_x cube_side) w)))"
    using f2 f3 r by (simp add: autoscale_arrows_def given_axes_def Let_def and_then_def)
  then show ?thesis using v
    by (simp add: Let_def lim_vals_def set_xlim_def set_ylim_def set_zlim_def num_val_add)
qed

text \<open>
  C4, witness: with the one arrow from \<open>(0, 0, 0)\<close> to \<open>(2, 4, 6)\<close> on the current
  axes, the limits of x, y and z each become \<open>[0, 6]\<close>.
\<close>

theorem C4_autoscale_one_arrow_witness:
  "\<exists>w'. autoscale_arrows None one_arrow_world = Inr (RNone, w')
       \<and> lim_vals (xlim (axs w' 0)) = (0, 6)
       \<and> lim_vals (ylim (axs w' 0)) = (0, 6)
       \<and> lim_vals (zlim (axs w' 0)) = (0, 6)"
  using C4_autoscale_3d_cube[of None one_arrow_world]
  by (auto simp add: one_arrow_world_def add_artist_def world0_def empty_axes_def
       given_axes_def gca_def get_children_def endpoints_def coord_min_def coord_max_def
       Let_def)

text \<open>
  C7. When the given axes holds at least one 2D arrow and at least one 3D arrow,
  \<^verbatim>\<open>autoscale_arrows\<close> prints its error message, returns \<open>-1\<close>, and changes nothing
  else: every limit of every axes is as before.
\<close>

theorem C7_autoscale_mixed_arrows:
  assumes "\<exists>a \<in> set (get_children (given_axes ax_arg w) w). is_Arrow2D a"
      and "\<exists>a \<in> set (get_children (given_axes ax_arg w) w). is_Arrow3D a"
  shows "autoscale_arrows ax_arg w =
           Inr (RInt (- 1), w\<lparr>out := out w @ [''Mixing Arrow2D and Arrow3D not supported'']\<rparr>)"
proof -
  from assms have "filter is_Arrow2D (get_children (given_axes ax_arg w) w) \<noteq> []"
    and "filter is_Arrow3D (get_children (given_axes ax_arg w) w) \<noteq> []"
    by (auto simp: filter_empty_conv)
  then show ?thesis
    by (simp add: autoscale_arrows_def given_axes_def Let_def py_print_def)
qed

text \<open>C7, witness: the canvas with one 2D and one 3D arrow.\<close>

theorem C7_autoscale_mixed_witness:
  "autoscale_arrows None mixed_world =
     Inr (RInt (- 1), mixed_world\<lparr>out := [''Mixing Arrow2D and Arrow3D not supported'']\<rparr>)
   \<and> axs (mixed_world\<lparr>out := [''Mixing Arrow2D and Arrow3D not supported'']\<rparr>) = axs mixed_world"
  using C7_autoscale_mixed_arrows[of None mixed_world]
  by (simp add: mixed_world_def one_arrow_world_def add_artist_def world0_def empty_axes_def
       given_axes_def gca_def get_children_def)

text \<open>
  C10. When the given axes holds no 2D arrow and no 3D arrow, \<^verbatim>\<open>autoscale_arrows\<close>
  returns \<^verbatim>\<open>None\<close> (not \<open>-1\<close>) and leaves the whole state as it was: no limit changes and
  nothing is printed.
\<close>

theorem C10_autoscale_no_arrows:
  assumes "\<forall>a \<in> set (get_children (given_axes ax_arg w) w). \<not> is_Arrow2D a \<and> \<not> is_Arrow3D a"
  shows "autoscale_arrows ax_arg w = Inr (RNone, w)"
proof -
  from assms have "filter is_Arrow2D (get_children (given_axes ax_arg w) w) = []"
    and "filter is_Arrow3D (get_children (given_axes ax_arg w) w) = []"
    by (auto simp: filter_empty_conv)
  then show ?thesis
    by (simp add: autoscale_arrows_def given_axes_def Let_def and_then_def)
qed

text \<open>C10, witness: the canvas that holds a polyline and no arrow.\<close>

theorem C10_autoscale_no_arrows_witness:
  "autoscale_arrows None one_line_world = Inr (RNone, one_line_world)"
  using C10_autoscale_no_arrows[of None one_line_world]
  by (simp add: one_line_world_def add_artist_def world0_def empty_axes_def given_axes_def
       gca_def get_children_def)

section \<open>The line renderer\<close>

text \<open>
  C2. For every direction of length 2 or 3 whose first component is not zero and every
  point of the same length, \<^verbatim>\<open>plot_line\<close> returns normally and adds exactly one
  polyline, in the given colour, to the current axes. With \<open>xs i\<close> the \<open>i\<close>-th of 100
  evenly spaced values from \<open>-5\<close> to \<open>5\<close> and \<open>s = (xs i - point_x) / direction_x\<close>, the
  \<open>i\<close>-th sample of the polyline is \<open>point + s * direction\<close> in every coordinate, for
  \<open>i\<close> from 0 to 99; so its x-coordinates are the values \<open>xs i\<close> themselves, from
  \<open>-5\<close> to \<open>5\<close>.
\<close>

theorem C2_plot_line_samples:
  assumes "length dir_vec = 2 \<or> length dir_vec = 3"
      and "num_val (dir_vec ! 0) \<noteq> 0"
      and "length point = length dir_vec"
  shows "let xs = grid_sample (- 5) 5
         in \<exists>w' ln. plot_line dir_vec point c w = Inr w'
           \<and> get_children (gca w) w' = get_children (gca w) w @ [ln]
           \<and> artist_color ln = c
           \<and> line_arrays ln =
               map (\<lambda>k. map (\<lambda>i. Fin (num_val (point ! k)
                         + (xs i - num_val (point ! 0)) / num_val (dir_vec ! 0)
                           * num_val (dir_vec ! k)))
                      [0..<100])
                   [0..<length dir_vec]
           \<and> line_arrays ln ! 0 = map (\<lambda>i. Fin (xs i)) [0..<100]
           \<and> xs 0 = - 5 \<and> xs 99 = 5"
proof (cases "length dir_vec = 3")
  case True
  then obtain d0 d1 d2 where d: "dir_vec = [d0, d1, d2]" using length_3_cases by blast
  from True assms(3) obtain p0 p1 p2 where p: "point = [p0, p1, p2]"
    using length_3_cases[of point] by auto
  from assms(2) have nz: "num_val d0 \<noteq> 0" by (simp add: d)
  show ?thesis unfolding d p using nz
    by (simp add: plot_line_def plot_line_3d_def py_getitem_def Let_def add_artist_def
        set_aspect_def get_children_def gca_def py_float_def linspace_grid upt_3
        np_sample_point comp_def grid_sample_ends)
next
  case False
  with assms(1) have l2: "length dir_vec = 2" by simp
  then obtain d0 d1 where d: "dir_vec = [d0, d1]" using length_2_cases by blast
  from l2 assms(3) obtain p0 p1 where p: "point = [p0, p1]"
    using length_2_cases[of point] by auto
  from assms(2) have nz: "num_val d0 \<noteq> 0" by (simp add: d)
  show ?thesis unfolding d p using nz
    by (simp add: plot_line_def plot_line_2d_def py_getitem_def Let_def add_artist_def
        set_aspect_def get_children_def gca_def py_float_def linspace_grid upt_2
        np_sample_point comp_def grid_sample_ends)
qed

text \<open>
  C2, witness: the line with direction \<open>(2, 1)\<close> through \<open>(1, 1)\<close> on the fresh canvas
  has the x-coordinates \<open>xs i\<close> and the y-coordinates \<open>1 + (xs i - 1) / 2\<close>.
\<close>

theorem C2_plot_line_witness:
  "\<exists>w' ln. plot_line [PyInt 2, PyInt 1] [PyInt 1, PyInt 1] None world0 = Inr w'
      \<and> get_children (gca world0) w' = [ln]
      \<and> line_arrays ln =
           [map (\<lambda>i. Fin (grid_sample (- 5) 5 i)) [0..<100],
            map (\<lambda>i. Fin (1 + (grid_sample (- 5) 5 i - 1) / 2)) [0..<100]]"
  using C2_plot_line_samples[of "[PyInt 2, PyInt 1]" "[PyInt 1, PyInt 1]" None world0]
  by (auto simp add: upt_2 world0_def empty_axes_def get_children_def gca_def Let_def)

text \<open>
  C6, as amended. When the first component of the direction is zero (length 2 or 3, point
  of the same length), \<^verbatim>\<open>plot_line\<close> raises nothing: the division is numpy's, which
  gives infinities and NaN, and the call returns normally, having added exactly one
  polyline whose 100 x-coordinates are all NaN. And for the directions \<open>(1, 0)\<close> and
  \<open>(1, 0, 0)\<close> through the origin, whose first component is 1, \<^verbatim>\<open>plot_line\<close> returns
  normally as well.
\<close>

theorem C6_plot_line_zero_first_component:
  assumes "length dir_vec = 2 \<or> length dir_vec = 3"
      and "num_val (dir_vec ! 0) = 0"
      and "length point = length dir_vec"
  shows "(\<exists>w' ln. plot_line dir_vec point c w = Inr w'
           \<and> get_children (gca w) w' = get_children (gca w) w @ [ln]
           \<and> length (line_arrays ln) = length dir_vec
           \<and> line_arrays ln ! 0 = replicate 100 NaN)
         \<and> \<not> isl (plot_line [PyInt 1, PyInt 0] [PyInt 0, PyInt 0] None world0)
         \<and> \<not> isl (plot_line [PyInt 1, PyInt 0, PyInt 0] [PyInt 0, PyInt 0, PyInt 0]
                    None world0)"
proof (cases "length dir_vec = 3")
  case True
  then obtain d0 d1 d2 where d: "dir_vec = [d0, d1, d2]" using length_3_cases by blast
  from True assms(3) obtain p0 p1 p2 where p: "point = [p0, p1, p2]"
    using length_3_cases[of point] by auto
  from assms(2) have z: "num_val d0 = 0" by (simp add: d)
  show ?thesis unfolding d p using z
    by (simp add: plot_line_def plot_line_3d_def py_getitem_def Let_def add_artist_def
        set_aspect_def get_children_def gca_def py_float_def linspace_grid
        np_degenerate_x comp_def map_replicate_const plot_line_2d_def plot_line_3d_def)
next
  case False
  with assms(1) have l2: "length dir_vec = 2" by simp
  then obtain d0 d1 where d: "dir_vec = [d0, d1]" using length_2_cases by blast
  from l2 assms(3) obtain p0 p1 where p: "point = [p0, p1]"
    using length_2_cases[of point] by auto
  from assms(2) have z: "num_val d0 = 0" by (simp add: d)
  show ?thesis unfolding d p using z
    by (simp add: plot_line_def plot_line_2d_def py_getitem_def Let_def add_artist_def
        set_aspect_def get_children_def gca_def py_float_def linspace_grid
        np_degenerate_x comp_def map_replicate_const plot_line_2d_def plot_line_3d_def)
qed

text \<open>C6, witness: the vertical direction \<open>(0, 1)\<close> through \<open>(0, 0)\<close>.\<close>

theorem C6_plot_line_vertical_witness:
  "\<exists>w' ln. plot_line [PyInt 0, PyInt 1] [PyInt 0, PyInt 0] None world0 = Inr w'
      \<and> get_children (gca world0) w' = [ln]
      \<and> line_arrays ln ! 0 = replicate 100 NaN"
  using C6_plot_line_zero_first_component[of "[PyInt 0, PyInt 1]" "[PyInt 0, PyInt 0]" None world0]
  by (auto simp add: world0_def empty_axes_def get_children_def gca_def)

text \<open>
  C6, counterexample to the claim as stated: the directions \<open>(1, 0)\<close> and \<open>(1, 0, 0)\<close>
  through the origin, which the claim says must fail, have the first component 1, and
  \<^verbatim>\<open>plot_line\<close> returns normally for them; so it does for the direction \<open>(0, 1)\<close>,
  whose first component is zero.
\<close>

theorem C6_no_division_error_counterexample:
  "\<not> isl (plot_line [PyInt 1, PyInt 0] [PyInt 0, PyInt 0] None world0)
   \<and> \<not> isl (plot_line [PyInt 1, PyInt 0, PyInt 0] [PyInt 0, PyInt 0, PyInt 0] None world0)
   \<and> \<not> isl (plot_line [PyInt 0, PyInt 1] [PyInt 0, PyInt 0] None world0)"
  by (simp add: plot_line_def plot_line_2d_def plot_line_3d_def py_getitem_def Let_def)

section \<open>The plane renderer\<close>

text \<open>
  C3. For every normal of length 3 whose last component is not zero, every offset \<open>d\<close>
  and all ranges with at least two entries, \<^verbatim>\<open>plot_plane\<close> returns normally and adds
  exactly one surface to the current axes, over the 100 by 100 grid whose x-values
  \<open>gx j\<close> run evenly from \<open>xrange[0]\<close> to \<open>xrange[1]\<close> along each row and whose
  y-values \<open>gy i\<close> run evenly from \<open>yrange[0]\<close> to \<open>yrange[1]\<close> along each column,
  with the height \<open>(d - normal_x * gx j - normal_y * gy i) / normal_z\<close> and alpha 0.2.
  Its colour is the one given; when none is given (and the picker's index, if the picker
  exists, lies in the palette) it is the palette entry at the picker's index, and the
  picker advances by one modulo 6.
\<close>

theorem C3_plot_plane_surface:
  assumes "length normal = 3" and "num_val (normal ! 2) \<noteq> 0"
      and "2 \<le> length xrange" and "2 \<le> length yrange"
      and "c = None \<longrightarrow> picker_in_palette w"
  shows "let gx = grid_sample (num_val (xrange ! 0)) (num_val (xrange ! 1));
             gy = grid_sample (num_val (yrange ! 0)) (num_val (yrange ! 1))
         in \<exists>w'. plot_plane normal d c xrange yrange w = Inr w'
            \<and> get_children (gca w) w' = get_children (gca w) w @
                [Surface
                   (map (\<lambda>i. map (\<lambda>j. Fin (gx j)) [0..<100]) [0..<100])
                   (map (\<lambda>i. map (\<lambda>j. Fin (gy i)) [0..<100]) [0..<100])
                   (map (\<lambda>i. map (\<lambda>j. Fin ((num_val d - num_val (normal ! 0) * gx j
                                            - num_val (normal ! 1) * gy i)
                                          / num_val (normal ! 2))) [0..<100]) [0..<100])
                   (case c of Some c' \<Rightarrow> Some c'
                      | None \<Rightarrow> Some (PlaneColorPicker_COLORS ! next_index w))
                   0.2]
            \<and> gx 0 = num_val (xrange ! 0) \<and> gx 99 = num_val (xrange ! 1)
            \<and> gy 0 = num_val (yrange ! 0) \<and> gy 99 = num_val (yrange ! 1)
            \<and> picker w' = (case c of Some c' \<Rightarrow> picker w
                      | None \<Rightarrow> Some ((int (next_index w) + 1) mod 6))"
proof -
  from assms(1) obtain n0 n1 n2 where n: "normal = [n0, n1, n2]"
    using length_3_cases by blast
  from assms(3) obtain x0 x1 xr where x: "xrange = x0 # x1 # xr"
    using length_ge_2_cases by blast
  from assms(4) obtain y0 y1 yr where y: "yrange = y0 # y1 # yr"
    using length_ge_2_cases by blast
  from assms(2) have nz: "num_val n2 \<noteq> 0" by (simp add: n)
  show ?thesis
  proof (cases c)
    case None
    with assms(5) have "picker_in_palette (set_aspect (gca w) ''equal'' w)"
      by (simp add: picker_set_aspect)
    from pick_color[OF this]
    have pc: "get_color (PlaneColorPicker_init 0 (set_aspect (gca w) ''equal'' w)) =
           Inr (PlaneColorPicker_COLORS ! next_index w,
                (set_aspect (gca w) ''equal'' w)
                  \<lparr>picker := Some ((int (next_index w) + 1) mod 6)\<rparr>)"
      by (simp add: next_index_set_aspect)
    show ?thesis unfolding n x y using nz None pc
      by (simp add: plot_plane_def plot_plane_3d_def py_getitem_def Let_def py_float_def
          linspace_grid meshgrid_def map2_same np_sub_Fin np_div_Fin comp_def
          add_artist_def set_aspect_def get_children_def gca_def grid_sample_ends)
  next
    case (Some c')
    then show ?thesis unfolding n x y using nz
      by (simp add: plot_plane_def plot_plane_3d_def py_getitem_def Let_def py_float_def
          linspace_grid meshgrid_def map2_same np_sub_Fin np_div_Fin comp_def
          add_artist_def set_aspect_def get_children_def gca_def grid_sample_ends)
  qed
qed

text \<open>
  C3, witness: \<^verbatim>\<open>plot_plane(normal=(0,0,1), d=5)\<close> in a fresh process, with the default
  ranges and no colour, adds the flat surface \<open>z = 5\<close> over the grid from \<open>-5\<close> to \<open>5\<close>
  in both directions, in the first palette colour, blue.
\<close>

theorem C3_plot_plane_flat_witness:
  "\<exists>w'.
      plot_plane [PyInt 0, PyInt 0, PyInt 1] (PyInt 5) None default_range default_range world0
        = Inr w'
    \<and> get_children (gca world0) w' =
        [Surface (map (\<lambda>i. map (\<lambda>j. Fin (grid_sample (- 5) 5 j)) [0..<100]) [0..<100])
                 (map (\<lambda>i. map (\<lambda>j. Fin (grid_sample (- 5) 5 i)) [0..<100]) [0..<100])
                 (replicate 100 (replicate 100 (Fin 5)))
                 (Some ''b'') 0.2]
    \<and> picker w' = Some 1"
  using C3_plot_plane_surface[where normal = "[PyInt 0, PyInt 0, PyInt 1]" and d = "PyInt 5"
       and c = None and xrange = default_range and yrange = default_range and w = world0]
  by (auto simp add: default_range_def world0_def empty_axes_def get_children_def gca_def
      picker_in_palette_def next_index_def PlaneColorPicker_COLORS_def Let_def
      map_replicate_const)

section \<open>The colour cycler\<close>

text \<open>
  C5, as amended. Constructing the picker again never resets it: a second construction
  leaves the state of the first, and a construction on an existing picker changes
  nothing. While the index lies in the palette, \<^verbatim>\<open>get_color\<close> returns the palette
  entry at the index and advances the index by one modulo 6. Two successive calls of
  \<^verbatim>\<open>plot_plane\<close> with normals of length 3 and no colour each add one surface; the
  first has the palette colour at the picker's index, the second the next palette colour,
  the two differ, and the index has advanced by one after the first call and by two after
  the second.
\<close>

theorem C5_color_cycler:
  assumes "length n1 = 3" and "2 \<le> length xr1" and "2 \<le> length yr1"
      and "length n2 = 3" and "2 \<le> length xr2" and "2 \<le> length yr2"
      and "picker_in_palette w"
  shows "(\<forall>s s'. PlaneColorPicker_init s' (PlaneColorPicker_init s w) = PlaneColorPicker_init s w)
       \<and> (\<forall>s i. picker w = Some i \<longrightarrow> PlaneColorPicker_init s w = w)
       \<and> (\<forall>i. picker w = Some i \<longrightarrow>
             get_color w = Inr (PlaneColorPicker_COLORS ! nat i,
                                w\<lparr>picker := Some ((i + 1) mod 6)\<rparr>))
       \<and> PlaneColorPicker_COLORS = [''b'', ''g'', ''r'', ''c'', ''m'', ''k'']
       \<and> (\<exists>w1 w2 sf1 sf2.
             plot_plane n1 d1 None xr1 yr1 w = Inr w1
           \<and> plot_plane n2 d2 None xr2 yr2 w1 = Inr w2
           \<and> get_children (gca w) w1 = get_children (gca w) w @ [sf1]
           \<and> get_children (gca w) w2 = get_children (gca w) w @ [sf1, sf2]
           \<and> artist_color sf1 = Some (PlaneColorPicker_COLORS ! next_index w)
           \<and> artist_color sf2 = Some (PlaneColorPicker_COLORS ! (Suc (next_index w) mod 6))
           \<and> artist_color sf1 \<noteq> artist_color sf2
           \<and> picker w1 = Some ((int (next_index w) + 1) mod 6)
           \<and> picker w2 = Some ((int (next_index w) + 2) mod 6))"
proof -
  have a: "\<forall>s s'. PlaneColorPicker_init s' (PlaneColorPicker_init s w) = PlaneColorPicker_init s w"
    by (simp add: PlaneColorPicker_init_def)
  have b: "\<forall>s i. picker w = Some i \<longrightarrow> PlaneColorPicker_init s w = w"
    by (simp add: PlaneColorPicker_init_def)
  have c: "\<forall>i. picker w = Some i \<longrightarrow>
             get_color w = Inr (PlaneColorPicker_COLORS ! nat i,
                                w\<lparr>picker := Some ((i + 1) mod 6)\<rparr>)"
    using assms(7) get_color_in_palette[of w]
    by (auto simp: picker_in_palette_def PlaneColorPicker_COLORS_def)
  have pal: "PlaneColorPicker_COLORS = [''b'', ''g'', ''r'', ''c'', ''m'', ''k'']"
    by (simp add: PlaneColorPicker_COLORS_def)
  let ?k = "next_index w"
  have k6: "?k < 6" using assms(7) by (rule next_index_less)
  from plot_plane_3d_picks[OF assms(1,2,3,7), of d1]
  obtain w1 sf1 where r1: "plot_plane n1 d1 None xr1 yr1 w = Inr w1"
    and pk1: "picker w1 = Some ((int ?k + 1) mod 6)"
    and g1: "gca w1 = gca w"
    and ch1: "get_children (gca w) w1 = get_children (gca w) w @ [sf1]"
    and c1: "artist_color sf1 = Some (PlaneColorPicker_COLORS ! ?k)" by blast
  have p1: "picker_in_palette w1"
    using pk1 by (simp add: picker_in_palette_def PlaneColorPicker_COLORS_def)
  have n1: "next_index w1 = Suc ?k mod 6"
    using pk1 by (simp add: next_index_def nat_mod_distrib nat_add_distrib)
  from plot_plane_3d_picks[OF assms(4,5,6) p1, of d2]
  obtain w2 sf2 where r2: "plot_plane n2 d2 None xr2 yr2 w1 = Inr w2"
    and pk2': "picker w2 = Some ((int (Suc ?k mod 6) + 1) mod 6)"
    and ch2': "get_children (gca w) w2 = get_children (gca w) w1 @ [sf2]"
    and c2: "artist_color sf2 = Some (PlaneColorPicker_COLORS ! (Suc ?k mod 6))"
    unfolding n1 g1 by blast
  have ch2: "get_children (gca w) w2 = get_children (gca w) w @ [sf1, sf2]"
    using ch2' ch1 by simp
  have ne: "artist_color sf1 \<noteq> artist_color sf2"
    using palette_successive_distinct[OF k6] c1 c2 by simp
  have pk2: "picker w2 = Some ((int ?k + 2) mod 6)"
    using pk2' by (simp add: mod_simps zmod_int add.commute)
  have "\<exists>w1 w2 sf1 sf2.
             plot_plane n1 d1 None xr1 yr1 w = Inr w1
           \<and> plot_plane n2 d2 None xr2 yr2 w1 = Inr w2
           \<and> get_children (gca w) w1 = get_children (gca w) w @ [sf1]
           \<and> get_children (gca w) w2 = get_children (gca w) w @ [sf1, sf2]
           \<and> artist_color sf1 = Some (PlaneColorPicker_COLORS ! next_index w)
           \<and> artist_color sf2 = Some (PlaneColorPicker_COLORS ! (Suc (next_index w) mod 6))
           \<and> artist_color sf1 \<noteq> artist_color sf2
           \<and> picker w1 = Some ((int (next_index w) + 1) mod 6)
           \<and> picker w2 = Some ((int (next_index w) + 2) mod 6)"
    using r1 r2 ch1 ch2 c1 c2 ne pk1 pk2 by blast
  with a b c pal show ?thesis by blast
qed

text \<open>
  C5, witness: in a process whose picker stands at its last entry, a construction with
  another start changes nothing, \<^verbatim>\<open>get_color\<close> returns black and wraps the index to
  0, and two successive planes with no colour are black and then blue, the index being 0
  after the first and 1 after the second.
\<close>

theorem C5_color_cycler_witness:
  "picker_in_palette wrap_world
   \<and> PlaneColorPicker_init 3 wrap_world = wrap_world
   \<and> get_color wrap_world = Inr (''k'', wrap_world\<lparr>picker := Some 0\<rparr>)
   \<and> (\<exists>w1 w2 sf1 sf2.
         plot_plane [PyInt 0, PyInt 0, PyInt 1] (PyInt 5) None default_range default_range
           wrap_world = Inr w1
       \<and> plot_plane [PyInt 1, PyInt 1, PyInt 1] (PyInt 0) None default_range default_range
           w1 = Inr w2
       \<and> get_children 0 w2 = [sf1, sf2]
       \<and> artist_color sf1 = Some ''k''
       \<and> artist_color sf2 = Some ''b''
       \<and> picker w1 = Some 0
       \<and> picker w2 = Some 1)"
proof -
  have p: "picker_in_palette wrap_world"
    by (simp add: picker_in_palette_def wrap_world_def world0_def PlaneColorPicker_COLORS_def)
  have pk: "picker wrap_world = Some 5" by (simp add: wrap_world_def)
  have k: "next_index wrap_world = 5" by (simp add: next_index_def pk)
  have ch: "get_children 0 wrap_world = []"
    by (simp add: get_children_def wrap_world_def world0_def empty_axes_def)
  have g: "gca wrap_world = 0" by (simp add: gca_def wrap_world_def world0_def)
  from C5_color_cycler[where w = wrap_world
      and ?n1.0 = "[PyInt 0, PyInt 0, PyInt 1]" and ?d1.0 = "PyInt 5"
      and ?n2.0 = "[PyInt 1, PyInt 1, PyInt 1]" and ?d2.0 = "PyInt 0"
      and ?xr1.0 = default_range and ?yr1.0 = default_range
      and ?xr2.0 = default_range and ?yr2.0 = default_range]
  show ?thesis using p
    by (auto simp add: default_range_def pk k ch g PlaneColorPicker_COLORS_def)
qed

text \<open>
  C5, counterexample to the claim as stated (any two calls with no colour): two
  successive calls of \<^verbatim>\<open>plot_plane\<close> with normals of length 2 and no colour return
  normally, both polylines have no colour from the palette (\<open>None\<close>, the library's
  default), and the picker has not even been created.
\<close>

theorem C5_two_lines_counterexample:
  "\<not> isl (and_then (plot_plane [PyInt 1, PyInt 1] (PyInt 2) None default_range default_range world0)
               (plot_plane [PyInt 1, PyInt (- 1)] (PyInt 0) None default_range default_range))
   \<and> map artist_color (get_children 0 (projr
        (and_then (plot_plane [PyInt 1, PyInt 1] (PyInt 2) None default_range default_range world0)
               (plot_plane [PyInt 1, PyInt (- 1)] (PyInt 0) None default_range default_range))))
       = [None, None]
   \<and> picker (projr
        (and_then (plot_plane [PyInt 1, PyInt 1] (PyInt 2) None default_range default_range world0)
               (plot_plane [PyInt 1, PyInt (- 1)] (PyInt 0) None default_range default_range)))
       = None"
  by (simp add: and_then_def plot_plane_def plot_plane_2d_def py_getitem_def Let_def
      default_range_def add_artist_def set_aspect_def gca_def get_children_def world0_def
      empty_axes_def)

end
